theory Spec2Isabelle
  imports Main "HOL-Library.Word"
begin

unbundle bit_operations_syntax

section \<open>The clock debug layer of arch/arm/mach-msm/clock-debug.c\<close>

text \<open>
  The file is a debugfs front end over the MSM clock API. Everything it calls that lives
  elsewhere in the kernel (\<^verbatim>\<open>clk_set_rate\<close>, \<^verbatim>\<open>clk_set_parent\<close>, \<^verbatim>\<open>debugfs_create_file\<close>,
  \<^verbatim>\<open>kzalloc\<close>, ...) is a parameter of the model: a field of the record \<open>env\<close>. Such a
  call may change any kernel state (the \<^verbatim>\<open>struct clk\<close> objects and the hardware), but not
  the \<^verbatim>\<open>static\<close> variables of this file. Every call is also appended to a trace, so that
  the order of the calls can be stated.
\<close>

subsection \<open>Machine types (ARM, ILP32)\<close>

type_synonym u32 = "32 word"   \<comment> \<open>\<^verbatim>\<open>unsigned\<close>, \<^verbatim>\<open>u32\<close>, \<^verbatim>\<open>uint32_t\<close>, \<^verbatim>\<open>size_t\<close>\<close>
type_synonym s32 = "32 word"   \<comment> \<open>\<^verbatim>\<open>int\<close>, read with \<open>sint\<close>\<close>
type_synonym ulong = "32 word" \<comment> \<open>\<^verbatim>\<open>unsigned long\<close>\<close>
type_synonym u64 = "64 word"
type_synonym mode = "16 word"

abbreviation NUL :: char where "NUL \<equiv> CHR 0x00"
abbreviation TAB :: char where "TAB \<equiv> CHR 0x09"
abbreviation NL :: char where "NL \<equiv> CHR 0x0A"

text \<open>A \<^verbatim>\<open>struct clk *\<close> is the number of the object it points to, or \<open>None\<close> for \<^verbatim>\<open>NULL\<close>.\<close>

type_synonym clk_ref = nat
type_synonym clk_ptr = "clk_ref option"
type_synonym dentry = "nat option"

subsection \<open>\<^verbatim>\<open>struct clk_ops\<close>, \<^verbatim>\<open>struct clk\<close>, \<^verbatim>\<open>struct clk_lookup\<close>\<close>

text \<open>
  Only the members this file reads. A function pointer is \<open>None\<close> when it is \<^verbatim>\<open>NULL\<close>;
  otherwise it is a function of the clock and the hardware state \<open>'h\<close>.
\<close>

record 'h clk_ops =
  is_enabled :: "(clk_ref \<Rightarrow> 'h \<Rightarrow> s32 \<times> 'h) option"
  is_local :: "(clk_ref \<Rightarrow> 'h \<Rightarrow> bool \<times> 'h) option"
  list_rate :: "(clk_ref \<Rightarrow> u32 \<Rightarrow> 'h \<Rightarrow> s32 \<times> 'h) option"

record 'h clk =
  flags :: u32
  ops :: "'h clk_ops"
  dbg_name :: string   \<comment> \<open>the characters before the terminating NUL\<close>
  count :: u32

record clk_lookup =
  clk :: clk_ptr

subsection \<open>State\<close>

text \<open>What the rest of the kernel owns: the clock objects and the hardware.\<close>

record 'h kern =
  clks :: "clk_ref \<Rightarrow> 'h clk"
  hw :: 'h

datatype fops =
  clock_rate_fops | clock_enable_fops | clock_local_fops | clock_measure_fops
| clock_showall_fops | list_rates_fops

text \<open>The calls that leave this file, as they appear in the trace.\<close>

datatype call =
  Call_clk_set_rate clk_ptr ulong
| Call_clk_set_min_rate clk_ptr ulong
| Call_clk_set_max_rate clk_ptr ulong
| Call_clk_get_rate clk_ptr
| Call_clk_set_parent clk_ptr clk_ptr
| Call_clk_enable clk_ptr
| Call_clk_disable clk_ptr
| Call_clk_get_sys string string
| Call_debugfs_create_dir string dentry
| Call_debugfs_create_u32 string mode dentry
| Call_debugfs_create_file string mode dentry clk_ptr fops
| Call_debugfs_remove_recursive dentry
| Call_kzalloc nat

text \<open>A line of the kernel log: the level, the format and its arguments.\<close>

datatype loglevel = KERN_ERR | KERN_INFO
datatype fmt_arg = A_int int | A_str string
datatype logline = Printk loglevel string "fmt_arg list"

text \<open>
  The state: the kernel's part, the \<^verbatim>\<open>static\<close> variables of the file, the log and the
  trace. \<open>msm_clocks\<close> is the array of \<^verbatim>\<open>num_msm_clocks\<close> entries; \<open>msm_enabled\<close> is the
  content of the 1024-byte buffer, or \<open>None\<close> when \<^verbatim>\<open>kzalloc\<close> returned \<^verbatim>\<open>NULL\<close>.
\<close>

record 'h sys =
  kern :: "'h kern"
  measure_clk :: clk_ptr   \<comment> \<open>\<^verbatim>\<open>static struct clk *measure\<close>\<close>
  debugfs_base :: dentry
  msm_clocks :: "clk_lookup list"
  msm_enabled :: "string option"
  klog :: "logline list"
  calls :: "call list"

text \<open>What can go wrong in C without an error code: undefined behaviour.\<close>

datatype fault =
  NULL_function_call           \<comment> \<open>a call through a \<^verbatim>\<open>NULL\<close> function pointer\<close>
| NULL_dereference
| Write_outside_buffer nat nat \<comment> \<open>offset from \<^verbatim>\<open>msm_enabled\<close> and number of bytes\<close>
| Unterminated_string          \<comment> \<open>a string read past the end of its array\<close>

subsection \<open>The kernel API, as parameters\<close>

record 'h env =
  CLKFLAG_MAX :: u32
  CLKFLAG_MIN :: u32
  k_clk_set_rate :: "clk_ptr \<Rightarrow> ulong \<Rightarrow> 'h kern \<Rightarrow> s32 \<times> 'h kern"
  k_clk_set_min_rate :: "clk_ptr \<Rightarrow> ulong \<Rightarrow> 'h kern \<Rightarrow> s32 \<times> 'h kern"
  k_clk_set_max_rate :: "clk_ptr \<Rightarrow> ulong \<Rightarrow> 'h kern \<Rightarrow> s32 \<times> 'h kern"
  k_clk_get_rate :: "clk_ptr \<Rightarrow> 'h kern \<Rightarrow> ulong \<times> 'h kern"
  k_clk_set_parent :: "clk_ptr \<Rightarrow> clk_ptr \<Rightarrow> 'h kern \<Rightarrow> s32 \<times> 'h kern"
  k_clk_enable :: "clk_ptr \<Rightarrow> 'h kern \<Rightarrow> s32 \<times> 'h kern"
  k_clk_disable :: "clk_ptr \<Rightarrow> 'h kern \<Rightarrow> unit \<times> 'h kern"
  k_clk_get_sys :: "string \<Rightarrow> string \<Rightarrow> 'h kern \<Rightarrow> (s32 + clk_ptr) \<times> 'h kern"
  k_debugfs_create_dir :: "string \<Rightarrow> dentry \<Rightarrow> 'h kern \<Rightarrow> dentry \<times> 'h kern"
  k_debugfs_create_u32 :: "string \<Rightarrow> mode \<Rightarrow> dentry \<Rightarrow> 'h kern \<Rightarrow> dentry \<times> 'h kern"
  k_debugfs_create_file ::
    "string \<Rightarrow> mode \<Rightarrow> dentry \<Rightarrow> clk_ptr \<Rightarrow> fops \<Rightarrow> 'h kern \<Rightarrow> dentry \<times> 'h kern"
  k_debugfs_remove_recursive :: "dentry \<Rightarrow> 'h kern \<Rightarrow> unit \<times> 'h kern"
  k_kzalloc :: "nat \<Rightarrow> 'h kern \<Rightarrow> bool \<times> 'h kern"
  k_tolower :: "char \<Rightarrow> char"

text \<open>
  \<open>extern ev f\<close> runs the kernel function \<open>f\<close> on the kernel's part of the state and
  records the call. \<open>call_op\<close> runs a member of \<^verbatim>\<open>clk->ops\<close> on the hardware state.
\<close>

definition extern :: "call \<Rightarrow> ('h kern \<Rightarrow> 'a \<times> 'h kern) \<Rightarrow> 'h sys \<Rightarrow> 'a \<times> 'h sys" where
  "extern ev f s =
     (let (r, k) = f (kern s) in (r, s\<lparr>kern := k, calls := calls s @ [ev]\<rparr>))"

definition call_op :: "('h \<Rightarrow> 'a \<times> 'h) \<Rightarrow> 'h sys \<Rightarrow> 'a \<times> 'h sys" where
  "call_op f s =
     (let (r, h) = f (hw (kern s)) in (r, s\<lparr>kern := (kern s)\<lparr>hw := h\<rparr>\<rparr>))"

definition printk :: "loglevel \<Rightarrow> string \<Rightarrow> fmt_arg list \<Rightarrow> 'h sys \<Rightarrow> 'h sys" where
  "printk lvl fmt args s = s\<lparr>klog := klog s @ [Printk lvl fmt args]\<rparr>"

abbreviation pr_info :: "string \<Rightarrow> fmt_arg list \<Rightarrow> 'h sys \<Rightarrow> 'h sys" where
  "pr_info \<equiv> printk KERN_INFO"

definition clk_set_rate :: "'h env \<Rightarrow> clk_ptr \<Rightarrow> ulong \<Rightarrow> 'h sys \<Rightarrow> s32 \<times> 'h sys" where
  "clk_set_rate e c r = extern (Call_clk_set_rate c r) (k_clk_set_rate e c r)"

definition clk_set_min_rate :: "'h env \<Rightarrow> clk_ptr \<Rightarrow> ulong \<Rightarrow> 'h sys \<Rightarrow> s32 \<times> 'h sys" where
  "clk_set_min_rate e c r = extern (Call_clk_set_min_rate c r) (k_clk_set_min_rate e c r)"

definition clk_set_max_rate :: "'h env \<Rightarrow> clk_ptr \<Rightarrow> ulong \<Rightarrow> 'h sys \<Rightarrow> s32 \<times> 'h sys" where
  "clk_set_max_rate e c r = extern (Call_clk_set_max_rate c r) (k_clk_set_max_rate e c r)"

definition clk_get_rate :: "'h env \<Rightarrow> clk_ptr \<Rightarrow> 'h sys \<Rightarrow> ulong \<times> 'h sys" where
  "clk_get_rate e c = extern (Call_clk_get_rate c) (k_clk_get_rate e c)"

definition clk_set_parent :: "'h env \<Rightarrow> clk_ptr \<Rightarrow> clk_ptr \<Rightarrow> 'h sys \<Rightarrow> s32 \<times> 'h sys" where
  "clk_set_parent e c p = extern (Call_clk_set_parent c p) (k_clk_set_parent e c p)"

definition clk_enable :: "'h env \<Rightarrow> clk_ptr \<Rightarrow> 'h sys \<Rightarrow> s32 \<times> 'h sys" where
  "clk_enable e c = extern (Call_clk_enable c) (k_clk_enable e c)"

definition clk_disable :: "'h env \<Rightarrow> clk_ptr \<Rightarrow> 'h sys \<Rightarrow> unit \<times> 'h sys" where
  "clk_disable e c = extern (Call_clk_disable c) (k_clk_disable e c)"

definition clk_get_sys :: "'h env \<Rightarrow> string \<Rightarrow> string \<Rightarrow> 'h sys \<Rightarrow> (s32 + clk_ptr) \<times> 'h sys" where
  "clk_get_sys e dev con = extern (Call_clk_get_sys dev con) (k_clk_get_sys e dev con)"

definition debugfs_create_dir :: "'h env \<Rightarrow> string \<Rightarrow> dentry \<Rightarrow> 'h sys \<Rightarrow> dentry \<times> 'h sys" where
  "debugfs_create_dir e name parent =
     extern (Call_debugfs_create_dir name parent) (k_debugfs_create_dir e name parent)"

definition debugfs_create_u32 ::
  "'h env \<Rightarrow> string \<Rightarrow> mode \<Rightarrow> dentry \<Rightarrow> 'h sys \<Rightarrow> dentry \<times> 'h sys" where
  "debugfs_create_u32 e name m parent =
     extern (Call_debugfs_create_u32 name m parent) (k_debugfs_create_u32 e name m parent)"

definition debugfs_create_file ::
  "'h env \<Rightarrow> string \<Rightarrow> mode \<Rightarrow> dentry \<Rightarrow> clk_ptr \<Rightarrow> fops \<Rightarrow> 'h sys \<Rightarrow> dentry \<times> 'h sys" where
  "debugfs_create_file e name m parent data f =
     extern (Call_debugfs_create_file name m parent data f)
       (k_debugfs_create_file e name m parent data f)"

definition debugfs_remove_recursive :: "'h env \<Rightarrow> dentry \<Rightarrow> 'h sys \<Rightarrow> unit \<times> 'h sys" where
  "debugfs_remove_recursive e d =
     extern (Call_debugfs_remove_recursive d) (k_debugfs_remove_recursive e d)"

definition kzalloc :: "'h env \<Rightarrow> nat \<Rightarrow> 'h sys \<Rightarrow> bool \<times> 'h sys" where
  "kzalloc e n = extern (Call_kzalloc n) (k_kzalloc e n)"

text \<open>Constants of \<^verbatim>\<open>linux/stat.h\<close> and \<^verbatim>\<open>asm-generic/errno-base.h\<close>.\<close>

definition S_IRUGO :: mode where "S_IRUGO = 0x124"
definition S_IWUSR :: mode where "S_IWUSR = 0x80"
definition ENOMEM :: s32 where "ENOMEM = 12"

text \<open>\<^verbatim>\<open>clock->flags & FLAG\<close> as a condition.\<close>

definition has_flag :: "'h kern \<Rightarrow> clk_ref \<Rightarrow> u32 \<Rightarrow> bool" where
  "has_flag k clock f = (flags (clks k clock) AND f \<noteq> 0)"

subsection \<open>The attribute callbacks\<close>

text \<open>
  \<^verbatim>\<open>clock_debug_rate_set\<close>. \<^verbatim>\<open>val\<close> is a \<^verbatim>\<open>u64\<close> and the three rate functions take an
  \<^verbatim>\<open>unsigned long\<close>: the argument is converted. \<^verbatim>\<open>clock->flags\<close> is read again at each
  test.
\<close>

definition clock_debug_rate_set :: "'h env \<Rightarrow> clk_ref \<Rightarrow> u64 \<Rightarrow> 'h sys \<Rightarrow> s32 \<times> 'h sys" where
  "clock_debug_rate_set e clock val s0 =
     (let s1 = (if has_flag (kern s0) clock (CLKFLAG_MAX e)
                then snd (clk_set_max_rate e (Some clock) (ucast val) s0) else s0);
          (ret, s2) = (if has_flag (kern s1) clock (CLKFLAG_MIN e)
                       then clk_set_min_rate e (Some clock) (ucast val) s1
                       else clk_set_rate e (Some clock) (ucast val) s1);
          s3 = (if ret \<noteq> 0
                then printk KERN_ERR (''clk_set%s_rate failed (%d)'' @ [NL])
                       [A_str (if has_flag (kern s2) clock (CLKFLAG_MIN e) then ''_min'' else ''''),
                        A_int (sint ret)] s2
                else s2)
      in (ret, s3))"

text \<open>
  The \<^verbatim>\<open>get\<close> callbacks return the status and the value stored through \<^verbatim>\<open>val\<close>
  (\<open>None\<close> when nothing is stored).
\<close>

definition clock_debug_rate_get :: "'h env \<Rightarrow> clk_ref \<Rightarrow> 'h sys \<Rightarrow> (s32 \<times> u64 option) \<times> 'h sys" where
  "clock_debug_rate_get e clock s0 =
     (let (r, s1) = clk_get_rate e (Some clock) s0 in ((0, Some (ucast r)), s1))"

definition clock_debug_measure_get ::
  "'h env \<Rightarrow> clk_ref \<Rightarrow> 'h sys \<Rightarrow> (s32 \<times> u64 option) \<times> 'h sys" where
  "clock_debug_measure_get e clock s0 =
     (let (ret, s1) = clk_set_parent e (measure_clk s0) (Some clock) s0 in
      if ret = 0
      then (let (r, s2) = clk_get_rate e (measure_clk s1) s1 in ((ret, Some (ucast r)), s2))
      else ((ret, None), s1))"

definition clock_debug_enable_set :: "'h env \<Rightarrow> clk_ref \<Rightarrow> u64 \<Rightarrow> 'h sys \<Rightarrow> s32 \<times> 'h sys" where
  "clock_debug_enable_set e clock val s0 =
     (if val \<noteq> 0 then clk_enable e (Some clock) s0
      else (0, snd (clk_disable e (Some clock) s0)))"

definition clock_debug_enable_get :: "clk_ref \<Rightarrow> 'h sys \<Rightarrow> (s32 \<times> u64 option) \<times> 'h sys" where
  "clock_debug_enable_get clock s0 =
     (case is_enabled (ops (clks (kern s0) clock)) of
        Some f \<Rightarrow> (let (enabled, s1) = call_op (f clock) s0 in ((0, Some (scast enabled)), s1))
      | None \<Rightarrow> ((0, Some (if count (clks (kern s0) clock) \<noteq> 0 then 1 else 0)), s0))"

text \<open>\<^verbatim>\<open>clock_debug_local_get\<close> calls \<^verbatim>\<open>clock->ops->is_local\<close> without a test.\<close>

definition clock_debug_local_get ::
  "clk_ref \<Rightarrow> 'h sys \<Rightarrow> fault + ((s32 \<times> u64 option) \<times> 'h sys)" where
  "clock_debug_local_get clock s0 =
     (case is_local (ops (clks (kern s0) clock)) of
        None \<Rightarrow> Inl NULL_function_call
      | Some f \<Rightarrow> (let (b, s1) = call_op (f clock) s0
                  in Inr ((0, Some (if b then 1 else 0)), s1)))"

subsection \<open>The enabled-clock reports\<close>

text \<open>\<^verbatim>\<open>clk->ops->is_enabled(clk)\<close>, as both reports call it: without a test of the pointer.\<close>

definition ops_is_enabled :: "clk_ref \<Rightarrow> 'h sys \<Rightarrow> fault + (s32 \<times> 'h sys)" where
  "ops_is_enabled c s =
     (case is_enabled (ops (clks (kern s) c)) of
        None \<Rightarrow> Inl NULL_function_call
      | Some f \<Rightarrow> Inr (call_op (f c) s))"

text \<open>
  \<^verbatim>\<open>_clock_debug_print_enabled\<close> (an Isabelle name cannot start with an underscore, so
  the function is \<open>static_clock_debug_print_enabled\<close> here). \<open>showall_body\<close> is the body
  of its loop for the entry \<open>l\<close>, \<open>showall_loop\<close> the loop over the entries that are
  left.
\<close>

definition showall_body :: "clk_lookup \<Rightarrow> s32 \<Rightarrow> 'h sys \<Rightarrow> fault + (s32 \<times> 'h sys)" where
  "showall_body l cnt s =
     (case clk l of
        None \<Rightarrow> Inr (cnt, s)
      | Some c \<Rightarrow>
          (case ops_is_enabled c s of
             Inl f \<Rightarrow> Inl f
           | Inr (en, s1) \<Rightarrow>
               if en \<noteq> 0
               then Inr (cnt + 1,
                      pr_info (TAB # ''%s'' @ [NL]) [A_str (dbg_name (clks (kern s1) c))] s1)
               else Inr (cnt, s1)))"

fun showall_loop :: "clk_lookup list \<Rightarrow> s32 \<Rightarrow> 'h sys \<Rightarrow> fault + (s32 \<times> 'h sys)" where
  "showall_loop [] cnt s = Inr (cnt, s)"
| "showall_loop (l # ls) cnt s =
     (case showall_body l cnt s of
        Inl f \<Rightarrow> Inl f
      | Inr (cnt', s') \<Rightarrow> showall_loop ls cnt' s')"

definition static_clock_debug_print_enabled :: "'h sys \<Rightarrow> fault + (s32 \<times> 'h sys)" where
  "static_clock_debug_print_enabled s0 =
     (let s1 = pr_info (''Enabled clocks:'' @ [NL]) [] s0 in
      case showall_loop (msm_clocks s1) 0 s1 of
        Inl f \<Rightarrow> Inl f
      | Inr (cnt, s2) \<Rightarrow>
          Inr (cnt,
            if cnt \<noteq> 0
            then pr_info (''Enabled clock count: %d'' @ [NL]) [A_int (sint cnt)] s2
            else pr_info (''No clocks enabled.'' @ [NL]) [] s2))"

definition clock_showall :: "'h sys \<Rightarrow> fault + ((s32 \<times> u64 option) \<times> 'h sys)" where
  "clock_showall s0 =
     (case static_clock_debug_print_enabled s0 of
        Inl f \<Rightarrow> Inl f
      | Inr (cnt, s1) \<Rightarrow> Inr ((0, Some (scast cnt)), s1))"

text \<open>
  A store of \<open>bytes\<close> at \<^verbatim>\<open>msm_enabled + off\<close>. The buffer is the 1024 bytes that
  \<^verbatim>\<open>kzalloc(1024, GFP_KERNEL)\<close> returned; a store that does not lie inside it is a fault.
\<close>

definition msm_enabled_write :: "nat \<Rightarrow> string \<Rightarrow> 'h sys \<Rightarrow> fault + 'h sys" where
  "msm_enabled_write off bytes s =
     (case msm_enabled s of
        None \<Rightarrow> Inl NULL_dereference
      | Some buf \<Rightarrow>
          if off + length bytes \<le> 1024
          then Inr (s\<lparr>msm_enabled := Some (take off buf @ bytes @ drop (off + length bytes) buf)\<rparr>)
          else Inl (Write_outside_buffer off (length bytes)))"

text \<open>
  \<^verbatim>\<open>snprintf(msm_enabled + off, n, "%s, ", name)\<close>, by the contract of \<^verbatim>\<open>snprintf\<close>
  (\<^verbatim>\<open>lib/vsprintf.c\<close>): at most \<open>n - 1\<close> characters of the formatted text are stored,
  then a NUL; the result is the length of the whole formatted text. Here \<open>n\<close> is
  \<^verbatim>\<open>strlen(clk->dbg_name) + 2\<close>, so the name and the comma are stored and the blank is
  cut off.
\<close>

definition snprintf_name :: "nat \<Rightarrow> u32 \<Rightarrow> string \<Rightarrow> 'h sys \<Rightarrow> fault + (u32 \<times> 'h sys)" where
  "snprintf_name off n name s =
     (let formatted = name @ '', '' in
      if n = 0 then Inr (of_nat (length formatted), s)
      else (case msm_enabled_write off (take (unat n - 1) formatted @ [NUL]) s of
              Inl f \<Rightarrow> Inl f
            | Inr s' \<Rightarrow> Inr (of_nat (length formatted), s')))"

text \<open>The string that \<^verbatim>\<open>%s\<close> reads at \<^verbatim>\<open>msm_enabled\<close>: the bytes before the first NUL.\<close>

definition msm_enabled_string :: "'h sys \<Rightarrow> string" where
  "msm_enabled_string s =
     (case msm_enabled s of None \<Rightarrow> [] | Some buf \<Rightarrow> takeWhile (\<lambda>c. c \<noteq> NUL) buf)"

text \<open>
  \<^verbatim>\<open>clock_debug_print_enabled\<close>. \<open>scan_body\<close> is the first statement of the loop's body
  (the \<^verbatim>\<open>if (clk && ...)\<close>) for the entry \<open>l\<close>, on the locals \<^verbatim>\<open>size\<close> and \<^verbatim>\<open>cnt\<close>;
  \<open>enabled_scan\<close> is the loop, with its \<^verbatim>\<open>if (size > 1000) break\<close> after the body.
\<close>

definition scan_body ::
  "clk_lookup \<Rightarrow> u32 \<times> u32 \<Rightarrow> 'h sys \<Rightarrow> fault + ((u32 \<times> u32) \<times> 'h sys)" where
  "scan_body l sc s =
     (case clk l of
        None \<Rightarrow> Inr (sc, s)
      | Some c \<Rightarrow>
          (case ops_is_enabled c s of
             Inl f \<Rightarrow> Inl f
           | Inr (en, s1) \<Rightarrow>
               if en \<noteq> 0
               then (let name = dbg_name (clks (kern s1) c) in
                     case snprintf_name (unat (fst sc)) (of_nat (length name) + 2) name s1 of
                       Inl f \<Rightarrow> Inl f
                     | Inr (ret, s2) \<Rightarrow> Inr ((fst sc + ret - 1, snd sc + 1), s2))
               else Inr (sc, s1)))"

fun enabled_scan ::
  "clk_lookup list \<Rightarrow> u32 \<times> u32 \<Rightarrow> 'h sys \<Rightarrow> fault + ((u32 \<times> u32) \<times> 'h sys)" where
  "enabled_scan [] sc s = Inr (sc, s)"
| "enabled_scan (l # ls) sc s =
     (case scan_body l sc s of
        Inl f \<Rightarrow> Inl f
      | Inr (sc', s') \<Rightarrow>
          if fst sc' > 1000 then Inr (sc', s') else enabled_scan ls sc' s')"

definition clock_debug_print_enabled :: "'h sys \<Rightarrow> fault + 'h sys" where
  "clock_debug_print_enabled s0 =
     (case msm_enabled s0 of
        None \<Rightarrow>
          Inr (pr_info (''[%s] No memory to debug clock'' @ [NL])
                 [A_str ''clock_debug_print_enabled''] s0)
      | Some _ \<Rightarrow>
          (let s1 = s0\<lparr>msm_enabled := Some (replicate 1024 NUL)\<rparr> in
           case enabled_scan (msm_clocks s1) (0, 0) s1 of
             Inl f \<Rightarrow> Inl f
           | Inr ((sz, cnt), s2) \<Rightarrow>
               (case msm_enabled_write (unat (sz - 1)) [NUL] s2 of
                  Inl f \<Rightarrow> Inl f
                | Inr s3 \<Rightarrow>
                    Inr (if cnt \<noteq> 0
                         then pr_info (''enabled clk %d: %s'' @ [NL])
                                [A_int (sint cnt), A_str (msm_enabled_string s3)] s3
                         else pr_info (''[%s] No clocks enabled.'' @ [NL])
                                [A_str ''clock_debug_print_enabled''] s3))))"

subsection \<open>Initialisation and registration\<close>

definition clock_debug_init :: "'h env \<Rightarrow> clk_lookup list \<Rightarrow> 'h sys \<Rightarrow> s32 \<times> 'h sys" where
  "clock_debug_init e clocks s0 =
     (let (base, sa) = debugfs_create_dir e ''clk'' None s0;
          s1 = sa\<lparr>debugfs_base := base\<rparr>
      in if base = None then (- ENOMEM, s1)
      else
       (let (d, s2) = debugfs_create_u32 e ''debug_suspend'' (S_IRUGO OR S_IWUSR) base s1
        in if d = None then (- ENOMEM, snd (debugfs_remove_recursive e base s2))
        else
         (let s3 = s2\<lparr>msm_clocks := clocks\<rparr>;
              (m, s4) = clk_get_sys e ''debug'' ''measure'' s3;
              (ret, s5) = (case m of
                             Inl err \<Rightarrow> (err, s4\<lparr>measure_clk := None\<rparr>)
                           | Inr p \<Rightarrow> (0, s4\<lparr>measure_clk := p\<rparr>));
              (_, s6) = debugfs_create_file e ''showall'' S_IRUGO (debugfs_base s5) None
                          clock_showall_fops s5;
              (ok, s7) = kzalloc e 1024 s6
          in (ret, s7\<lparr>msm_enabled := (if ok then Some (replicate 1024 NUL) else None)\<rparr>))))"

text \<open>
  \<^verbatim>\<open>strncpy(temp, clock->dbg_name, 49)\<close> into the uninitialised \<^verbatim>\<open>char temp[50]\<close>, then
  the loop that lowers every character up to the NUL. A name of 49 characters or more
  leaves \<^verbatim>\<open>temp\<close> without a NUL that was written.
\<close>

definition lower_name :: "'h env \<Rightarrow> string \<Rightarrow> fault + string" where
  "lower_name e name =
     (if length name < 49 then Inr (map (k_tolower e) name) else Inl Unterminated_string)"

text \<open>
  \<^verbatim>\<open>clock_debug_add\<close>. \<open>add_error\<close> is the code at the label \<^verbatim>\<open>error\<close>; the chain of
  \<^verbatim>\<open>if (...) goto error\<close> is cut in three: the three plain files, the measure file, the
  list_rates file.
\<close>

definition add_error :: "'h env \<Rightarrow> dentry \<Rightarrow> 'h sys \<Rightarrow> s32 \<times> 'h sys" where
  "add_error e clk_dir s = (- ENOMEM, snd (debugfs_remove_recursive e clk_dir s))"

definition add_list_rates :: "'h env \<Rightarrow> clk_ref \<Rightarrow> dentry \<Rightarrow> 'h sys \<Rightarrow> s32 \<times> 'h sys" where
  "add_list_rates e clock clk_dir s =
     (case list_rate (ops (clks (kern s) clock)) of
        None \<Rightarrow> (0, s)
      | Some _ \<Rightarrow>
          (let (d, s') = debugfs_create_file e ''list_rates'' S_IRUGO clk_dir (Some clock)
                           list_rates_fops s
           in if d = None then add_error e clk_dir s' else (0, s')))"

definition add_measure :: "'h env \<Rightarrow> clk_ref \<Rightarrow> dentry \<Rightarrow> 'h sys \<Rightarrow> s32 \<times> 'h sys" where
  "add_measure e clock clk_dir s =
     (if measure_clk s = None then add_list_rates e clock clk_dir s
      else
       (let (r, s1) = clk_set_parent e (measure_clk s) (Some clock) s in
        if r \<noteq> 0 then add_list_rates e clock clk_dir s1
        else
         (let (d, s2) = debugfs_create_file e ''measure'' S_IRUGO clk_dir (Some clock)
                          clock_measure_fops s1
          in if d = None then add_error e clk_dir s2
             else add_list_rates e clock clk_dir s2)))"

definition add_files :: "'h env \<Rightarrow> clk_ref \<Rightarrow> dentry \<Rightarrow> 'h sys \<Rightarrow> s32 \<times> 'h sys" where
  "add_files e clock clk_dir s =
     (let (d1, s1) = debugfs_create_file e ''rate'' (S_IRUGO OR S_IWUSR) clk_dir (Some clock)
                       clock_rate_fops s
      in if d1 = None then add_error e clk_dir s1
      else
       (let (d2, s2) = debugfs_create_file e ''enable'' (S_IRUGO OR S_IWUSR) clk_dir
                         (Some clock) clock_enable_fops s1
        in if d2 = None then add_error e clk_dir s2
        else
         (let (d3, s3) = debugfs_create_file e ''is_local'' S_IRUGO clk_dir (Some clock)
                           clock_local_fops s2
          in if d3 = None then add_error e clk_dir s3
             else add_measure e clock clk_dir s3)))"

definition clock_debug_add :: "'h env \<Rightarrow> clk_ref \<Rightarrow> 'h sys \<Rightarrow> fault + (s32 \<times> 'h sys)" where
  "clock_debug_add e clock s0 =
     (if debugfs_base s0 = None then Inr (- ENOMEM, s0)
      else
       (case lower_name e (dbg_name (clks (kern s0) clock)) of
          Inl f \<Rightarrow> Inl f
        | Inr temp \<Rightarrow>
            (let (clk_dir, s1) = debugfs_create_dir e temp (debugfs_base s0) s0 in
             if clk_dir = None then Inr (- ENOMEM, s1)
             else Inr (add_files e clock clk_dir s1))))"

subsection \<open>Requests to the control plane\<close>











subsection \<open>A small system to run the model on\<close>

text \<open>
  Three kinds of clock, over a hardware state that is just the parent of the measurement
  clock: clock 0 (\<^verbatim>\<open>uart_clk\<close>) is on, clock 2 (\<^verbatim>\<open>gp_clk\<close>) has neither \<^verbatim>\<open>is_enabled\<close>
  nor \<^verbatim>\<open>is_local\<close> in its ops and an enable count of 1, every other clock
  (\<^verbatim>\<open>sdc_clk\<close>) is off. The kernel functions succeed, except that \<^verbatim>\<open>clk_set_max_rate\<close>
  always fails, \<^verbatim>\<open>clk_set_min_rate\<close> refuses rates under 1000, and clock 1 cannot be
  the parent of the measurement clock.
\<close>

definition ex_ops_on :: "clk_ptr clk_ops" where
  "ex_ops_on =
     \<lparr>is_enabled = Some (\<lambda>c h. (1, h)), is_local = Some (\<lambda>c h. (True, h)), list_rate = None\<rparr>"

definition ex_ops_off :: "clk_ptr clk_ops" where
  "ex_ops_off =
     \<lparr>is_enabled = Some (\<lambda>c h. (0, h)), is_local = Some (\<lambda>c h. (False, h)), list_rate = None\<rparr>"

definition ex_ops_bare :: "clk_ptr clk_ops" where
  "ex_ops_bare = \<lparr>is_enabled = None, is_local = None, list_rate = None\<rparr>"

definition ex_clks :: "clk_ref \<Rightarrow> clk_ptr clk" where
  "ex_clks c =
     (if c = 0 then \<lparr>flags = 0x800, ops = ex_ops_on, dbg_name = ''uart_clk'', count = 1\<rparr>
      else if c = 2 then \<lparr>flags = 0, ops = ex_ops_bare, dbg_name = ''gp_clk'', count = 1\<rparr>
      else \<lparr>flags = 0xC00, ops = ex_ops_off, dbg_name = ''sdc_clk'', count = 0\<rparr>)"

definition ex_env :: "clk_ptr env" where
  "ex_env =
     \<lparr>CLKFLAG_MAX = 0x800, CLKFLAG_MIN = 0x400,
      k_clk_set_rate = (\<lambda>c r k. (0, k)),
      k_clk_set_min_rate = (\<lambda>c r k. (if r < 1000 then - 22 else 0, k)),
      k_clk_set_max_rate = (\<lambda>c r k. (- 22, k)),
      k_clk_get_rate = (\<lambda>c k. (19200000, k)),
      k_clk_set_parent = (\<lambda>c p k. if p = Some 1 then (- 22, k) else (0, k\<lparr>hw := p\<rparr>)),
      k_clk_enable = (\<lambda>c k. (0, k)),
      k_clk_disable = (\<lambda>c k. ((), k)),
      k_clk_get_sys = (\<lambda>dev con k. (Inl (- 2), k)),
      k_debugfs_create_dir = (\<lambda>name parent k. (Some 1, k)),
      k_debugfs_create_u32 = (\<lambda>name m parent k. (Some 2, k)),
      k_debugfs_create_file = (\<lambda>name m parent data f k. (Some 3, k)),
      k_debugfs_remove_recursive = (\<lambda>d k. ((), k)),
      k_kzalloc = (\<lambda>n k. (True, k)),
      k_tolower = (\<lambda>c. c)\<rparr>"

text \<open>The system after an initialisation that found no measurement clock.\<close>

definition ex_sys :: "clk_ptr sys" where
  "ex_sys =
     \<lparr>kern = \<lparr>clks = ex_clks, hw = None\<rparr>,
      measure_clk = None,
      debugfs_base = Some 1,
      msm_clocks = [\<lparr>clk = Some 0\<rparr>, \<lparr>clk = None\<rparr>, \<lparr>clk = Some 1\<rparr>, \<lparr>clk = Some 0\<rparr>],
      msm_enabled = Some (replicate 1024 NUL),
      klog = [],
      calls = []\<rparr>"

text \<open>The same with the measurement clock 9, and with other registries.\<close>

definition ex_sys_probe :: "clk_ptr sys" where
  "ex_sys_probe = ex_sys\<lparr>measure_clk := Some 9\<rparr>"

definition ex_sys_all_off :: "clk_ptr sys" where
  "ex_sys_all_off = ex_sys\<lparr>msm_clocks := [\<lparr>clk = Some 1\<rparr>, \<lparr>clk = None\<rparr>, \<lparr>clk = Some 3\<rparr>]\<rparr>"

definition ex_sys_bare :: "clk_ptr sys" where
  "ex_sys_bare = ex_sys\<lparr>msm_clocks := [\<lparr>clk = Some 2\<rparr>]\<rparr>"

text \<open>A system of 25 enabled clocks whose names have 40 characters.\<close>

definition ex_long_clks :: "clk_ref \<Rightarrow> clk_ptr clk" where
  "ex_long_clks c =
     \<lparr>flags = 0, ops = ex_ops_on, dbg_name = replicate 40 CHR ''x'', count = 1\<rparr>"

definition ex_sys_long :: "clk_ptr sys" where
  "ex_sys_long =
     ex_sys\<lparr>kern := \<lparr>clks = ex_long_clks, hw = None\<rparr>,
            msm_clocks := replicate 25 \<lparr>clk = Some 0\<rparr>\<rparr>"



subsection \<open>Vocabulary of the statements\<close>

text \<open>A registry entry that holds a clock, and the state with another registry.\<close>

definition has_clk :: "clk_lookup \<Rightarrow> bool" where
  "has_clk l = (clk l \<noteq> None)"

definition with_registry :: "clk_lookup list \<Rightarrow> 'h sys \<Rightarrow> 'h sys" where
  "with_registry reg s = s\<lparr>msm_clocks := reg\<rparr>"

text \<open>The calls of the trace that reparent a clock, and those that create a measure file.\<close>

definition is_reparent :: "call \<Rightarrow> bool" where
  "is_reparent c = (case c of Call_clk_set_parent _ _ \<Rightarrow> True | _ \<Rightarrow> False)"

definition is_measure_file :: "call \<Rightarrow> bool" where
  "is_measure_file c =
     (case c of Call_debugfs_create_file _ _ _ _ f \<Rightarrow> f = clock_measure_fops | _ \<Rightarrow> False)"

text \<open>No measurement clock, and no measure file was ever made.\<close>

definition no_probe :: "'h sys \<Rightarrow> bool" where
  "no_probe s = (measure_clk s = None \<and> filter is_measure_file (calls s) = [])"

section \<open>Basic facts\<close>

lemma extern_eq:
  "extern ev f s = (fst (f (kern s)), s\<lparr>kern := snd (f (kern s)), calls := calls s @ [ev]\<rparr>)"
  by (simp add: extern_def split: prod.split)

lemmas extern_defs =
  clk_set_rate_def clk_set_min_rate_def clk_set_max_rate_def clk_get_rate_def
  clk_set_parent_def clk_enable_def clk_disable_def clk_get_sys_def
  debugfs_create_dir_def debugfs_create_u32_def debugfs_create_file_def
  debugfs_remove_recursive_def kzalloc_def

lemma unat_minus_one_u32: "unat (- 1 :: u32) = 4294967295"
  by (simp add: unsigned_minus_1_eq_mask mask_eq_exp_minus_1)

section \<open>Setting a rate\<close>

text \<open>
  C1. \<^verbatim>\<open>clock_debug_rate_set\<close> calls \<^verbatim>\<open>clk_set_max_rate\<close> first when the clock has
  \<^verbatim>\<open>CLKFLAG_MAX\<close> and drops its result; then it calls \<^verbatim>\<open>clk_set_min_rate\<close> when the clock
  has \<^verbatim>\<open>CLKFLAG_MIN\<close> and \<^verbatim>\<open>clk_set_rate\<close> otherwise, on the state the first call left, and
  returns exactly what this second call returned. With both flags the second call is
  \<^verbatim>\<open>clk_set_min_rate\<close>. A line is logged exactly when the result is not 0.
\<close>

theorem rate_set_policy:
  "let max_first = has_flag (kern s) clock (CLKFLAG_MAX e);
       k1 = (if max_first then snd (k_clk_set_max_rate e (Some clock) (ucast val) (kern s))
             else kern s);
       use_min = has_flag k1 clock (CLKFLAG_MIN e);
       definitive = (if use_min then k_clk_set_min_rate e (Some clock) (ucast val) k1
                     else k_clk_set_rate e (Some clock) (ucast val) k1);
       res = clock_debug_rate_set e clock val s
   in fst res = fst definitive
    \<and> kern (snd res) = snd definitive
    \<and> calls (snd res) =
        calls s
        @ (if max_first then [Call_clk_set_max_rate (Some clock) (ucast val)] else [])
        @ [if use_min then Call_clk_set_min_rate (Some clock) (ucast val)
           else Call_clk_set_rate (Some clock) (ucast val)]
    \<and> klog (snd res) =
        klog s
        @ (if fst definitive = 0 then []
           else [Printk KERN_ERR (''clk_set%s_rate failed (%d)'' @ [NL])
                  [A_str (if has_flag (snd definitive) clock (CLKFLAG_MIN e)
                          then ''_min'' else ''''),
                   A_int (sint (fst definitive))]])"
  by (simp add: clock_debug_rate_set_def clk_set_max_rate_def clk_set_min_rate_def
      clk_set_rate_def extern_eq printk_def Let_def split: prod.split)

section \<open>Measuring\<close>

text \<open>
  C3. \<^verbatim>\<open>clock_debug_measure_get\<close> returns the status of \<^verbatim>\<open>clk_set_parent(measure, clock)\<close>;
  it stores a rate exactly when that status is 0, and the rate is the one
  \<^verbatim>\<open>clk_get_rate(measure)\<close> gives on the state the reparent left. When the reparent fails
  \<^verbatim>\<open>clk_get_rate\<close> is not called.
\<close>

theorem measure_get_result:
  "let reparent = k_clk_set_parent e (measure_clk s) (Some clock) (kern s);
       rate = k_clk_get_rate e (measure_clk s) (snd reparent);
       res = clock_debug_measure_get e clock s
   in fst (fst res) = fst reparent
    \<and> (snd (fst res) \<noteq> None) = (fst reparent = 0)
    \<and> snd (fst res) = (if fst reparent = 0 then Some (ucast (fst rate)) else None)
    \<and> calls (snd res) =
        calls s @ Call_clk_set_parent (measure_clk s) (Some clock)
                # (if fst reparent = 0 then [Call_clk_get_rate (measure_clk s)] else [])
    \<and> kern (snd res) = (if fst reparent = 0 then snd rate else snd reparent)"
  by (simp add: clock_debug_measure_get_def clk_set_parent_def clk_get_rate_def extern_eq
      Let_def split: prod.split)

section \<open>Registration without a measurement clock\<close>

text \<open>
  What registering a clock adds to the trace, first for its parts. When there is no
  measurement clock it reparents nothing and creates no measure file.
\<close>

lemma add_error_frame:
  "filter is_reparent (calls (snd (add_error e d s))) = filter is_reparent (calls s)"
  "filter is_measure_file (calls (snd (add_error e d s))) = filter is_measure_file (calls s)"
  "measure_clk (snd (add_error e d s)) = measure_clk s"
  by (simp_all add: add_error_def extern_defs extern_eq is_reparent_def is_measure_file_def)

lemma add_list_rates_frame:
  "filter is_reparent (calls (snd (add_list_rates e c d s))) = filter is_reparent (calls s)"
  "filter is_measure_file (calls (snd (add_list_rates e c d s))) =
     filter is_measure_file (calls s)"
  "measure_clk (snd (add_list_rates e c d s)) = measure_clk s"
  by (simp_all add: add_list_rates_def add_error_frame extern_defs extern_eq
      is_reparent_def is_measure_file_def split: option.split prod.split)




section \<open>The parent of the measurement clock\<close>

text \<open>
  C5, as the claim states it, fails: registering a clock reparents the measurement clock.
  On the system with the measurement clock 9, whose parent is unset and on which nothing
  was called yet, \<^verbatim>\<open>clock_debug_add\<close> of clock 0 calls
  \<^verbatim>\<open>clk_set_parent(measure, clock)\<close>, and the parent is clock 0 afterwards, without any
  measurement.
\<close>

theorem add_reparents_probe:
  "hw (kern ex_sys_probe) = None
   \<and> calls ex_sys_probe = []
   \<and> clock_debug_add ex_env 0 ex_sys_probe =
       Inr (0, ex_sys_probe\<lparr>kern := \<lparr>clks = ex_clks, hw = Some 0\<rparr>, calls :=
         [Call_debugfs_create_dir ''uart_clk'' (Some 1),
          Call_debugfs_create_file ''rate'' 420 (Some 1) (Some 0) clock_rate_fops,
          Call_debugfs_create_file ''enable'' 420 (Some 1) (Some 0) clock_enable_fops,
          Call_debugfs_create_file ''is_local'' 292 (Some 1) (Some 0) clock_local_fops,
          Call_clk_set_parent (Some 9) (Some 0),
          Call_debugfs_create_file ''measure'' 292 (Some 1) (Some 0) clock_measure_fops]\<rparr>)"
  by (simp add: clock_debug_add_def lower_name_def add_files_def add_measure_def
      add_list_rates_def extern_defs extern_eq S_IRUGO_def S_IWUSR_def
      ex_env_def ex_sys_probe_def ex_sys_def ex_clks_def ex_ops_on_def)

lemma call_op_calls: "calls (snd (call_op f s)) = calls s"
  by (simp add: call_op_def case_prod_beta)

lemma ops_is_enabled_calls: "ops_is_enabled c s = Inr (en, s') \<Longrightarrow> calls s' = calls s"
  by (auto simp: ops_is_enabled_def call_op_def case_prod_beta split: option.splits)

lemma showall_body_calls: "showall_body l cnt s = Inr (cnt', s') \<Longrightarrow> calls s' = calls s"
  by (auto simp: showall_body_def ops_is_enabled_def call_op_def case_prod_beta printk_def
      split: option.splits if_splits)

lemma showall_loop_calls: "showall_loop ls cnt s = Inr (cnt', s') \<Longrightarrow> calls s' = calls s"
proof (induction ls arbitrary: cnt s)
  case Nil
  then show ?case by simp
next
  case (Cons l ls)
  from Cons.prems obtain c1 s1
    where body: "showall_body l cnt s = Inr (c1, s1)"
      and rest: "showall_loop ls c1 s1 = Inr (cnt', s')"
    by (auto split: sum.splits)
  from rest have "calls s' = calls s1" by (rule Cons.IH)
  with showall_body_calls [OF body] show ?case by simp
qed

lemma static_print_calls:
  assumes "static_clock_debug_print_enabled s = Inr (cnt, s')"
  shows "calls s' = calls s"
proof -
  let ?s1 = "pr_info (''Enabled clocks:'' @ [NL]) [] s"
  from assms obtain s2 where scan: "showall_loop (msm_clocks ?s1) 0 ?s1 = Inr (cnt, s2)"
    and s': "calls s' = calls s2"
    by (auto simp: static_clock_debug_print_enabled_def Let_def printk_def
        split: sum.splits if_splits)
  from showall_loop_calls [OF scan] s' show ?thesis by (simp add: printk_def)
qed

lemma showall_calls: "clock_showall s = Inr (r, s') \<Longrightarrow> calls s' = calls s"
  by (auto simp: clock_showall_def split: sum.splits intro: static_print_calls)

lemma msm_enabled_write_calls: "msm_enabled_write off bs s = Inr s' \<Longrightarrow> calls s' = calls s"
  by (auto simp: msm_enabled_write_def split: option.splits if_splits)

lemma snprintf_name_calls: "snprintf_name off n name s = Inr (r, s') \<Longrightarrow> calls s' = calls s"
  by (auto simp: snprintf_name_def msm_enabled_write_def Let_def
      split: if_splits option.splits)

lemma scan_body_calls: "scan_body l sc s = Inr (sc', s') \<Longrightarrow> calls s' = calls s"
  by (auto simp: scan_body_def snprintf_name_def msm_enabled_write_def ops_is_enabled_def
      call_op_def case_prod_beta Let_def split: option.splits if_splits)

lemma enabled_scan_calls: "enabled_scan ls sc s = Inr (sc', s') \<Longrightarrow> calls s' = calls s"
proof (induction ls arbitrary: sc s)
  case Nil
  then show ?case by simp
next
  case (Cons l ls)
  from Cons.prems obtain sc1 s1
    where body: "scan_body l sc s = Inr (sc1, s1)"
      and rest: "s' = s1 \<or> enabled_scan ls sc1 s1 = Inr (sc', s')"
    by (auto split: sum.splits if_splits)
  from rest have "calls s' = calls s1" by (auto dest: Cons.IH)
  with scan_body_calls [OF body] show ?case by simp
qed

lemma print_enabled_calls:
  assumes "clock_debug_print_enabled s = Inr s'"
  shows "calls s' = calls s"
proof (cases "msm_enabled s")
  case None
  with assms show ?thesis by (auto simp: clock_debug_print_enabled_def printk_def)
next
  case (Some buf)
  let ?s1 = "s\<lparr>msm_enabled := Some (replicate 1024 NUL)\<rparr>"
  from assms Some obtain sz cnt s2 s3
    where scan: "enabled_scan (msm_clocks ?s1) (0, 0) ?s1 = Inr ((sz, cnt), s2)"
      and wr: "msm_enabled_write (unat (sz - 1)) [NUL] s2 = Inr s3"
      and s': "calls s' = calls s3"
    by (auto simp: clock_debug_print_enabled_def Let_def printk_def
        split: sum.splits if_splits)
  from enabled_scan_calls [OF scan] msm_enabled_write_calls [OF wr] s'
  show ?thesis by simp
qed

lemma local_get_calls: "clock_debug_local_get c s = Inr (r, s') \<Longrightarrow> calls s' = calls s"
  by (auto simp: clock_debug_local_get_def call_op_def case_prod_beta split: option.splits)

lemma enable_get_calls: "calls (snd (clock_debug_enable_get c s)) = calls s"
  by (simp add: clock_debug_enable_get_def call_op_def case_prod_beta split: option.split)

lemma init_reparents:
  "filter is_reparent (calls (snd (clock_debug_init e clocks s))) = filter is_reparent (calls s)"
  by (simp add: clock_debug_init_def extern_defs extern_eq is_reparent_def Let_def
      case_prod_beta split: sum.split)

lemma add_measure_reparents:
  "filter is_reparent (calls (snd (add_measure e c d s))) =
     filter is_reparent (calls s)
     @ (if measure_clk s = None then [] else [Call_clk_set_parent (measure_clk s) (Some c)])"
  by (simp add: add_measure_def add_list_rates_frame add_error_frame extern_defs extern_eq
      is_reparent_def case_prod_beta)

lemma add_files_reparents:
  "filter is_reparent (calls (snd (add_files e c d s))) = filter is_reparent (calls s)
   \<or> measure_clk s \<noteq> None
     \<and> filter is_reparent (calls (snd (add_files e c d s))) =
         filter is_reparent (calls s) @ [Call_clk_set_parent (measure_clk s) (Some c)]"
  by (simp add: add_files_def add_measure_reparents add_error_frame extern_defs extern_eq
      is_reparent_def case_prod_beta Let_def)

lemma add_reparents:
  assumes "clock_debug_add e c s = Inr (ret, s')"
  shows "filter is_reparent (calls s') = filter is_reparent (calls s)
   \<or> measure_clk s \<noteq> None
     \<and> filter is_reparent (calls s') =
         filter is_reparent (calls s) @ [Call_clk_set_parent (measure_clk s) (Some c)]"
proof -
  let ?name = "map (k_tolower e) (dbg_name (clks (kern s) c))"
  let ?r = "debugfs_create_dir e ?name (debugfs_base s) s"
  have r: "filter is_reparent (calls (snd ?r)) = filter is_reparent (calls s)"
    "measure_clk (snd ?r) = measure_clk s"
    by (simp_all add: extern_defs extern_eq is_reparent_def)
  consider "s' = s" | "s' = snd ?r" | "s' = snd (add_files e c (fst ?r) (snd ?r))"
    using assms
    by (auto simp: clock_debug_add_def lower_name_def case_prod_beta split: if_splits)
  then show ?thesis
  proof cases
    case 1
    then show ?thesis by simp
  next
    case 2
    with r show ?thesis by simp
  next
    case 3
    with r add_files_reparents [of e c "fst ?r" "snd ?r"] show ?thesis by simp
  qed
qed

text \<open>
  C5, amended. \<^verbatim>\<open>clk_set_parent\<close> is called by two operations only: by a measurement,
  once, on the measurement clock and the measured clock, and by the registration of a
  clock, at most once, on the measurement clock and the registered clock, and only when a
  measurement clock exists. Setting or reading a rate, enabling, disabling, reading the
  enable state or \<^verbatim>\<open>is_local\<close>, both reports and the initialisation never call it.
\<close>

theorem reparent_only_by_measure_and_add:
  "filter is_reparent (calls (snd (clock_debug_rate_set e clock val s))) =
     filter is_reparent (calls s)
   \<and> filter is_reparent (calls (snd (clock_debug_rate_get e clock s))) =
       filter is_reparent (calls s)
   \<and> filter is_reparent (calls (snd (clock_debug_enable_set e clock val s))) =
       filter is_reparent (calls s)
   \<and> calls (snd (clock_debug_enable_get clock s)) = calls s
   \<and> filter is_reparent (calls (snd (clock_debug_init e clocks s))) =
       filter is_reparent (calls s)
   \<and> (\<forall>r s'. clock_debug_local_get clock s = Inr (r, s') \<longrightarrow> calls s' = calls s)
   \<and> (\<forall>r s'. clock_showall s = Inr (r, s') \<longrightarrow> calls s' = calls s)
   \<and> (\<forall>s'. clock_debug_print_enabled s = Inr s' \<longrightarrow> calls s' = calls s)
   \<and> filter is_reparent (calls (snd (clock_debug_measure_get e clock s))) =
       filter is_reparent (calls s) @ [Call_clk_set_parent (measure_clk s) (Some clock)]
   \<and> (\<forall>r s'. clock_debug_add e clock s = Inr (r, s') \<longrightarrow>
         filter is_reparent (calls s') = filter is_reparent (calls s)
         \<or> measure_clk s \<noteq> None
           \<and> filter is_reparent (calls s') =
               filter is_reparent (calls s) @ [Call_clk_set_parent (measure_clk s) (Some clock)])"
proof (intro conjI allI impI)
  show "filter is_reparent (calls (snd (clock_debug_rate_set e clock val s))) =
     filter is_reparent (calls s)"
    by (simp add: clock_debug_rate_set_def extern_defs extern_eq printk_def is_reparent_def
        Let_def case_prod_beta)
  show "filter is_reparent (calls (snd (clock_debug_rate_get e clock s))) =
       filter is_reparent (calls s)"
    by (simp add: clock_debug_rate_get_def extern_defs extern_eq is_reparent_def case_prod_beta)
  show "filter is_reparent (calls (snd (clock_debug_enable_set e clock val s))) =
       filter is_reparent (calls s)"
    by (simp add: clock_debug_enable_set_def extern_defs extern_eq is_reparent_def)
  show "calls (snd (clock_debug_enable_get clock s)) = calls s"
    by (rule enable_get_calls)
  show "filter is_reparent (calls (snd (clock_debug_init e clocks s))) =
       filter is_reparent (calls s)"
    by (rule init_reparents)
  show "filter is_reparent (calls (snd (clock_debug_measure_get e clock s))) =
       filter is_reparent (calls s) @ [Call_clk_set_parent (measure_clk s) (Some clock)]"
    by (simp add: clock_debug_measure_get_def extern_defs extern_eq is_reparent_def
        Let_def case_prod_beta)
qed (erule local_get_calls showall_calls print_enabled_calls add_reparents)+

theorem reparent_only_by_measure_and_add_witness:
  "(\<exists>r s'. clock_debug_local_get 0 ex_sys = Inr (r, s') \<and> calls s' = calls ex_sys)
   \<and> (\<exists>r s'. clock_showall ex_sys = Inr (r, s') \<and> calls s' = calls ex_sys)
   \<and> (\<exists>s'. clock_debug_print_enabled ex_sys = Inr s' \<and> calls s' = calls ex_sys)
   \<and> (\<exists>r s'. clock_debug_add ex_env 0 ex_sys_probe = Inr (r, s')
         \<and> (filter is_reparent (calls s') = []
            \<or> filter is_reparent (calls s') = [Call_clk_set_parent (Some 9) (Some 0)]))"
proof -
  have lg: "\<exists>r s'. clock_debug_local_get 0 ex_sys = Inr (r, s')"
    by (simp add: clock_debug_local_get_def call_op_def ex_sys_def ex_clks_def ex_ops_on_def)
  have sa: "\<exists>r s'. clock_showall ex_sys = Inr (r, s')"
    by (simp add: clock_showall_def static_clock_debug_print_enabled_def showall_body_def
        ops_is_enabled_def call_op_def printk_def
        ex_sys_def ex_clks_def ex_ops_on_def ex_ops_off_def)
  have pe: "\<exists>s'. clock_debug_print_enabled ex_sys = Inr s'"
    by (simp add: clock_debug_print_enabled_def msm_enabled_write_def scan_body_def
        snprintf_name_def printk_def ops_is_enabled_def call_op_def
        ex_sys_def ex_clks_def ex_ops_on_def ex_ops_off_def)
  have ad: "\<exists>r s'. clock_debug_add ex_env 0 ex_sys_probe = Inr (r, s')"
    by (simp add: clock_debug_add_def lower_name_def case_prod_beta
        extern_defs extern_eq ex_env_def ex_sys_probe_def ex_sys_def ex_clks_def)
  have probe: "measure_clk ex_sys_probe = Some 9" "calls ex_sys_probe = []"
    by (simp_all add: ex_sys_probe_def ex_sys_def)
  from lg sa pe ad probe show ?thesis
    using reparent_only_by_measure_and_add [where s = ex_sys and clock = 0]
      reparent_only_by_measure_and_add [where s = ex_sys_probe and e = ex_env and clock = 0]
    by (metis append_Nil filter.simps(1))
qed

section \<open>Measure requests without a measurement clock\<close>



lemma no_probe_same:
  "no_probe s \<Longrightarrow> measure_clk s' = measure_clk s \<Longrightarrow> calls s' = calls s \<Longrightarrow> no_probe s'"
  by (simp add: no_probe_def)


















section \<open>Local clocks\<close>

text \<open>
  C7, as the claim states it, fails: \<^verbatim>\<open>clock_debug_local_get\<close> calls
  \<^verbatim>\<open>clock->ops->is_local\<close> without testing it, so on a clock whose ops have no
  \<^verbatim>\<open>is_local\<close> it calls a \<^verbatim>\<open>NULL\<close> pointer and returns no error code.
\<close>

theorem local_get_without_is_local:
  "clock_debug_local_get 2 ex_sys = Inl NULL_function_call"
  by (simp add: clock_debug_local_get_def ex_sys_def ex_clks_def ex_ops_bare_def)

text \<open>
  C7, amended. On a clock whose ops have \<^verbatim>\<open>is_local\<close>, \<^verbatim>\<open>clock_debug_local_get\<close>
  returns 0 and stores exactly what \<^verbatim>\<open>is_local\<close> reported, as 0 or 1; it has no other
  outcome.
\<close>

theorem local_get_delegates:
  "is_local (ops (clks (kern s) clock)) = Some f \<Longrightarrow>
   clock_debug_local_get clock s =
     Inr ((0, Some (if fst (f clock (hw (kern s))) then 1 else 0)),
          s\<lparr>kern := (kern s)\<lparr>hw := snd (f clock (hw (kern s)))\<rparr>\<rparr>)"
  by (simp add: clock_debug_local_get_def call_op_def split: prod.split)

theorem local_get_delegates_witness:
  "is_local (ops (clks (kern ex_sys) 0)) = Some (\<lambda>c h. (True, h))
   \<and> clock_debug_local_get 0 ex_sys = Inr ((0, Some 1), ex_sys)"
  using local_get_delegates [of ex_sys 0 "\<lambda>c h. (True, h)"]
  by (simp add: ex_sys_def ex_clks_def ex_ops_on_def)

section \<open>Enabledness\<close>

text \<open>
  C8. On a clock whose ops have no \<^verbatim>\<open>is_enabled\<close> and whose enable count is 1, the
  \<^verbatim>\<open>enable\<close> attribute falls back to the count and reads 1, while both reports call the
  \<^verbatim>\<open>NULL\<close> pointer: they do not decide enabledness the way \<^verbatim>\<open>clock_debug_enable_get\<close>
  does.
\<close>

theorem enabled_test_differs_without_is_enabled:
  "clock_debug_enable_get 2 ex_sys_bare = ((0, Some 1), ex_sys_bare)
   \<and> static_clock_debug_print_enabled ex_sys_bare = Inl NULL_function_call
   \<and> clock_showall ex_sys_bare = Inl NULL_function_call
   \<and> clock_debug_print_enabled ex_sys_bare = Inl NULL_function_call"
  by (simp add: clock_debug_enable_get_def static_clock_debug_print_enabled_def
      clock_showall_def clock_debug_print_enabled_def showall_body_def scan_body_def
      ops_is_enabled_def printk_def
      ex_sys_bare_def ex_sys_def ex_clks_def ex_ops_bare_def)

section \<open>The bounded report\<close>

text \<open>
  With an empty registry \<^verbatim>\<open>size\<close> is still 0 after the loop, and the store to
  \<^verbatim>\<open>msm_enabled[size - 1]\<close> has the index \<open>2\<^sup>3\<^sup>2 - 1\<close>.
\<close>

lemma print_enabled_empty_registry:
  "clock_debug_print_enabled (s\<lparr>msm_enabled := Some buf, msm_clocks := []\<rparr>) =
     Inl (Write_outside_buffer 4294967295 1)"
  by (simp add: clock_debug_print_enabled_def msm_enabled_write_def unat_minus_one_u32)

text \<open>When the names fit, the report is the list of the names, separated by commas.\<close>

lemma print_enabled_example:
  "map_sum id klog (clock_debug_print_enabled ex_sys) =
     Inr [Printk KERN_INFO (''enabled clk %d: %s'' @ [NL])
           [A_int 2, A_str ''uart_clk,uart_clk'']]"
  by (simp add: clock_debug_print_enabled_def msm_enabled_write_def scan_body_def
      snprintf_name_def msm_enabled_string_def printk_def
      ops_is_enabled_def call_op_def
      ex_sys_def ex_clks_def ex_ops_on_def ex_ops_off_def)

text \<open>
  The bound is tested after the copy. With 25 enabled clocks whose names have 40
  characters, 24 names are copied, \<^verbatim>\<open>size\<close> is 984, and the 25th copy of 42 bytes
  ends after the buffer.
\<close>

lemma scan_body_long:
  assumes "clks (kern s) = ex_long_clks" and "msm_enabled s = Some buf"
  shows "unat sz + 42 \<le> 1024 \<Longrightarrow>
           \<exists>buf'. scan_body \<lparr>clk = Some 0\<rparr> (sz, cnt) s =
                    Inr ((sz + 41, cnt + 1), s\<lparr>msm_enabled := Some buf'\<rparr>)"
    and "\<not> unat sz + 42 \<le> 1024 \<Longrightarrow>
           scan_body \<lparr>clk = Some 0\<rparr> (sz, cnt) s = Inl (Write_outside_buffer (unat sz) 42)"
  using assms
  by (auto simp: scan_body_def ops_is_enabled_def call_op_def snprintf_name_def
      msm_enabled_write_def ex_long_clks_def ex_ops_on_def)

lemma enabled_scan_long:
  assumes "clks (kern s) = ex_long_clks" and "msm_enabled s = Some buf"
    and "unat sz = 41 * j" and "j + n = 24"
  shows "enabled_scan (replicate (Suc n) \<lparr>clk = Some 0\<rparr>) (sz, cnt) s =
           Inl (Write_outside_buffer 984 42)"
  using assms
proof (induction n arbitrary: s buf sz cnt j)
  case 0
  then show ?case by (simp add: scan_body_long(2))
next
  case (Suc n)
  from Suc.prems have j: "j \<le> 23" by simp
  with Suc.prems have fits: "unat sz + 42 \<le> 1024" by simp
  from scan_body_long(1) [OF Suc.prems(1,2) fits] obtain buf'
    where body: "scan_body \<lparr>clk = Some 0\<rparr> (sz, cnt) s =
                   Inr ((sz + 41, cnt + 1), s\<lparr>msm_enabled := Some buf'\<rparr>)"
    by blast
  have "unat (sz + 41) = unat sz + unat (41 :: u32)"
    by (rule iffD1 [OF unat_add_lem]) (use fits in simp)
  with Suc.prems have next_sz: "unat (sz + 41) = 41 * Suc j" by simp
  then have go_on: "\<not> 1000 < sz + 41" using j by (simp add: word_less_nat_alt)
  have "enabled_scan (replicate (Suc n) \<lparr>clk = Some 0\<rparr>) (sz + 41, cnt + 1)
          (s\<lparr>msm_enabled := Some buf'\<rparr>) = Inl (Write_outside_buffer 984 42)"
    using Suc.prems next_sz by (intro Suc.IH [where j = "Suc j"]) simp_all
  with body go_on show ?case by simp
qed

lemma print_enabled_long_names:
  "clock_debug_print_enabled ex_sys_long = Inl (Write_outside_buffer 984 42)"
proof -
  let ?s1 = "ex_sys_long\<lparr>msm_enabled := Some (replicate 1024 NUL)\<rparr>"
  have "enabled_scan (replicate (Suc 24) \<lparr>clk = Some 0\<rparr>) (0, 0) ?s1 =
          Inl (Write_outside_buffer 984 42)"
    by (rule enabled_scan_long [where j = 0 and buf = "replicate 1024 NUL"])
      (simp_all add: ex_sys_long_def ex_sys_def)
  moreover have "msm_clocks ?s1 = replicate (Suc 24) \<lparr>clk = Some 0\<rparr>"
    by (simp add: ex_sys_long_def ex_sys_def)
  moreover have "msm_enabled ex_sys_long = Some (replicate 1024 NUL)"
    by (simp add: ex_sys_long_def ex_sys_def)
  ultimately show ?thesis
    by (simp add: clock_debug_print_enabled_def)
qed

text \<open>
  C2. With a registry in which no clock is enabled (two clocks that are off and a
  \<^verbatim>\<open>NULL\<close> entry), \<^verbatim>\<open>clock_debug_print_enabled\<close> stores the final NUL one byte before the
  buffer, not inside it.
\<close>

theorem print_enabled_none_on:
  "clock_debug_print_enabled ex_sys_all_off = Inl (Write_outside_buffer 4294967295 1)"
  by (simp add: clock_debug_print_enabled_def msm_enabled_write_def scan_body_def
      ops_is_enabled_def call_op_def unat_minus_one_u32
      ex_sys_all_off_def ex_sys_def ex_clks_def ex_ops_off_def)

section \<open>Enabling and disabling\<close>

text \<open>
  C9. Writing a nonzero value to \<^verbatim>\<open>enable\<close> calls \<^verbatim>\<open>clk_enable\<close> once and returns its
  result unchanged; writing zero calls \<^verbatim>\<open>clk_disable\<close> once and returns 0.
\<close>

theorem enable_set_result:
  "fst (clock_debug_enable_set e clock val s) =
     (if val \<noteq> 0 then fst (k_clk_enable e (Some clock) (kern s)) else 0)
   \<and> calls (snd (clock_debug_enable_set e clock val s)) =
       calls s @ [if val \<noteq> 0 then Call_clk_enable (Some clock) else Call_clk_disable (Some clock)]
   \<and> kern (snd (clock_debug_enable_set e clock val s)) =
       (if val \<noteq> 0 then snd (k_clk_enable e (Some clock) (kern s))
        else snd (k_clk_disable e (Some clock) (kern s)))
   \<and> klog (snd (clock_debug_enable_set e clock val s)) = klog s"
  by (simp add: clock_debug_enable_set_def clk_enable_def clk_disable_def extern_eq)

section \<open>Registry entries without a clock\<close>

lemma showall_body_null: "clk l = None \<Longrightarrow> showall_body l cnt s = Inr (cnt, s)"
  by (simp add: showall_body_def)

lemma scan_body_null: "clk l = None \<Longrightarrow> scan_body l sc s = Inr (sc, s)"
  by (simp add: scan_body_def)

lemma showall_loop_filter:
  "showall_loop (filter has_clk ls) cnt s = showall_loop ls cnt s"
proof (induction ls arbitrary: cnt s)
  case Nil
  show ?case by simp
next
  case (Cons l ls)
  show ?case
  proof (cases "clk l")
    case None
    then show ?thesis using Cons.IH by (simp add: has_clk_def showall_body_null)
  next
    case (Some c)
    then show ?thesis using Cons.IH
      by (simp add: has_clk_def split: sum.split prod.split)
  qed
qed

lemma enabled_scan_filter:
  "fst sc \<le> 1000 \<Longrightarrow> enabled_scan (filter has_clk ls) sc s = enabled_scan ls sc s"
proof (induction ls arbitrary: sc s)
  case Nil
  show ?case by simp
next
  case (Cons l ls)
  show ?case
  proof (cases "clk l")
    case None
    then have skip: "\<not> has_clk l" by (simp add: has_clk_def)
    have "\<not> 1000 < fst sc" using Cons.prems by simp
    with None skip show ?thesis using Cons.IH [OF Cons.prems]
      by (simp add: scan_body_null)
  next
    case (Some c)
    then have keep: "has_clk l" by (simp add: has_clk_def)
    show ?thesis
    proof (cases "scan_body l sc s")
      case (Inl f)
      with keep show ?thesis by simp
    next
      case (Inr r)
      obtain sc' s' where r: "r = (sc', s')" by (cases r)
      show ?thesis
      proof (cases "1000 < fst sc'")
        case True
        with keep Inr r show ?thesis by simp
      next
        case False
        then have "fst sc' \<le> 1000" by simp
        then have "enabled_scan (filter has_clk ls) sc' s' = enabled_scan ls sc' s'"
          by (rule Cons.IH)
        with keep Inr r False show ?thesis by simp
      qed
    qed
  qed
qed

lemma showall_loop_nulls: "showall_loop (replicate n \<lparr>clk = None\<rparr>) cnt s = Inr (cnt, s)"
  by (induction n) (simp_all add: showall_body_null)

lemma enabled_scan_nulls: "enabled_scan (replicate n \<lparr>clk = None\<rparr>) (0, cnt) s = Inr ((0, cnt), s)"
  by (induction n) (simp_all add: scan_body_null)

text \<open>Both scans read the registry they are given, not the one in the state.\<close>

lemma with_registry_simps:
  "msm_clocks (with_registry r s) = r"
  "msm_enabled (with_registry r s) = msm_enabled s"
  "kern (with_registry r s) = kern s"
  "with_registry r (with_registry r' s) = with_registry r s"
  "printk lvl fmt args (with_registry r s) = with_registry r (printk lvl fmt args s)"
  "(with_registry r s)\<lparr>msm_enabled := b\<rparr> = with_registry r (s\<lparr>msm_enabled := b\<rparr>)"
  by (simp_all add: with_registry_def printk_def)

lemma call_op_registry:
  "call_op f (with_registry r s) = map_prod id (with_registry r) (call_op f s)"
  by (simp add: call_op_def with_registry_def split: prod.split)

lemma ops_is_enabled_registry:
  "ops_is_enabled c (with_registry r s) =
     map_sum id (map_prod id (with_registry r)) (ops_is_enabled c s)"
  by (simp add: ops_is_enabled_def call_op_registry with_registry_simps split: option.split)

lemma showall_body_registry:
  "showall_body l cnt (with_registry r s) =
     map_sum id (map_prod id (with_registry r)) (showall_body l cnt s)"
  by (simp add: showall_body_def ops_is_enabled_registry with_registry_simps
      split: option.split sum.split prod.split)

lemma showall_loop_registry:
  "showall_loop ls cnt (with_registry r s) =
     map_sum id (map_prod id (with_registry r)) (showall_loop ls cnt s)"
proof (induction ls arbitrary: cnt s)
  case Nil
  show ?case by simp
next
  case (Cons l ls)
  show ?case
    by (cases "showall_body l cnt s") (auto simp: showall_body_registry Cons.IH)
qed

lemma msm_enabled_write_registry:
  "msm_enabled_write off bs (with_registry r s) =
     map_sum id (with_registry r) (msm_enabled_write off bs s)"
  by (simp add: msm_enabled_write_def with_registry_simps split: option.split)

lemma snprintf_name_registry:
  "snprintf_name off n name (with_registry r s) =
     map_sum id (map_prod id (with_registry r)) (snprintf_name off n name s)"
  by (simp add: snprintf_name_def msm_enabled_write_registry Let_def split: sum.split)

lemma scan_body_registry:
  "scan_body l sc (with_registry r s) =
     map_sum id (map_prod id (with_registry r)) (scan_body l sc s)"
  by (simp add: scan_body_def ops_is_enabled_registry snprintf_name_registry Let_def
      with_registry_simps split: option.split sum.split prod.split)

lemma enabled_scan_registry:
  "enabled_scan ls sc (with_registry r s) =
     map_sum id (map_prod id (with_registry r)) (enabled_scan ls sc s)"
proof (induction ls arbitrary: sc s)
  case Nil
  show ?case by simp
next
  case (Cons l ls)
  show ?case
    by (cases "scan_body l sc s") (auto simp: scan_body_registry Cons.IH)
qed

lemma msm_enabled_string_registry:
  "msm_enabled_string (with_registry r s) = msm_enabled_string s"
  by (simp add: msm_enabled_string_def with_registry_simps)

lemma static_print_filter:
  "static_clock_debug_print_enabled (with_registry reg s) =
     map_sum id (map_prod id (with_registry reg))
       (static_clock_debug_print_enabled (with_registry (filter has_clk reg) s))"
proof (cases "showall_loop reg 0 (pr_info (''Enabled clocks:'' @ [NL]) [] s)")
  case (Inl f)
  then show ?thesis
    by (simp add: static_clock_debug_print_enabled_def with_registry_simps
        showall_loop_registry showall_loop_filter)
next
  case (Inr r)
  then show ?thesis
    by (cases r)
      (simp add: static_clock_debug_print_enabled_def with_registry_simps
        showall_loop_registry showall_loop_filter)
qed

lemma print_enabled_filter:
  "clock_debug_print_enabled (with_registry reg s) =
     map_sum id (with_registry reg)
       (clock_debug_print_enabled (with_registry (filter has_clk reg) s))"
proof (cases "msm_enabled s")
  case None
  then show ?thesis
    by (simp add: clock_debug_print_enabled_def with_registry_simps)
next
  case (Some buf)
  let ?s1 = "s\<lparr>msm_enabled := Some (replicate 1024 NUL)\<rparr>"
  show ?thesis
  proof (cases "enabled_scan reg (0, 0) ?s1")
    case (Inl f)
    with Some show ?thesis
      by (simp add: clock_debug_print_enabled_def with_registry_simps
          enabled_scan_registry enabled_scan_filter)
  next
    case (Inr r)
    obtain sz cnt s2 where r: "r = ((sz, cnt), s2)" by (cases r) auto
    show ?thesis
    proof (cases "msm_enabled_write (unat (sz - 1)) [NUL] s2")
      case (Inl f)
      with Some Inr r show ?thesis
        by (simp add: clock_debug_print_enabled_def with_registry_simps
            enabled_scan_registry enabled_scan_filter msm_enabled_write_registry)
    next
      case (Inr s3)
      with Some \<open>enabled_scan reg (0, 0) ?s1 = Inr r\<close> r show ?thesis
        by (simp add: clock_debug_print_enabled_def with_registry_simps
            enabled_scan_registry enabled_scan_filter msm_enabled_write_registry
            msm_enabled_string_registry)
    qed
  qed
qed

text \<open>
  C10. Both reports skip the entries whose clock pointer is \<^verbatim>\<open>NULL\<close>: run on a registry,
  each gives what it gives on the registry without those entries (the same result, log,
  buffer and kernel state), so such an entry adds no name and no count. Over a registry
  of \<^verbatim>\<open>NULL\<close> entries only, both scans end without a fault, with the count and the state
  they started with.
\<close>

theorem null_entries_skipped:
  "static_clock_debug_print_enabled (with_registry reg s) =
     map_sum id (map_prod id (with_registry reg))
       (static_clock_debug_print_enabled (with_registry (filter has_clk reg) s))
   \<and> clock_debug_print_enabled (with_registry reg s) =
       map_sum id (with_registry reg)
         (clock_debug_print_enabled (with_registry (filter has_clk reg) s))
   \<and> showall_loop (replicate n \<lparr>clk = None\<rparr>) cnt s = Inr (cnt, s)
   \<and> enabled_scan (replicate n \<lparr>clk = None\<rparr>) (0, cnt') s = Inr ((0, cnt'), s)"
  using static_print_filter print_enabled_filter showall_loop_nulls enabled_scan_nulls
  by blast

end
